theory Spec2Isabelle
  imports Main
begin

section \<open>SSL certificate expiry checker: the model of sslchecker.py\<close>

subsection \<open>Values of the Python program\<close>

text \<open>
  An exception that is an instance of \<open>Exception\<close>: its class name and \<open>str(e)\<close>.
  Everything the socket, ssl, datetime and tuple operations of \<open>get_cert_info\<close> raise
  (OSError and its subclasses, ssl.SSLError, ValueError, IndexError) is of this kind.
\<close>

datatype exn = Exn (exn_class: string) (exn_str: string)

text \<open>
  A naive \<open>datetime\<close> (no tzinfo), as \<open>strptime\<close> and \<open>datetime.now()\<close> return it: the
  number of microseconds on the naive time line. Subtraction of two naive datetimes is
  the difference on that line, given as a normalised \<open>timedelta\<close>. The program
  subtracts the value \<open>datetime.now()\<close> returns from the value \<open>strptime\<close> returns, as
  they are.
\<close>

type_synonym datetime = int

record timedelta =
  days :: int
  seconds :: int
  microseconds :: int

text \<open>
  The constructor \<open>timedelta(days, seconds, microseconds)\<close> normalises with \<open>divmod\<close>:
  \<open>0 \<le> microseconds < 1000000\<close>, \<open>0 \<le> seconds < 86400\<close>, the sign is carried by
  \<open>days\<close>. Python's \<open>divmod\<close> on integers is floor division, as \<open>div\<close> and \<open>mod\<close> on
  \<open>int\<close> are.
\<close>

definition mk_timedelta :: "int \<Rightarrow> int \<Rightarrow> int \<Rightarrow> timedelta" where
  "mk_timedelta d s us =
     (let s1 = s + us div 1000000;
          us1 = us mod 1000000;
          d1 = d + s1 div 86400;
          s2 = s1 mod 86400
      in \<lparr>days = d1, seconds = s2, microseconds = us1\<rparr>)"

definition datetime_sub :: "datetime \<Rightarrow> datetime \<Rightarrow> timedelta" where
  "datetime_sub a b = mk_timedelta 0 0 (a - b)"

text \<open>
  The dictionary \<open>ssock.getpeercert()\<close> returns for a validated certificate: the field
  \<open>notAfter\<close> is a string, the field \<open>issuer\<close> is a tuple of relative distinguished names,
  each a tuple of (attribute name, value) pairs.
\<close>

record peercert =
  notAfter :: string
  issuer :: "(string \<times> string) list list"

text \<open>A row of the result list: \<open>(host, days_left, status, issuer_name)\<close>.\<close>

type_synonym check_result = "string \<times> int option \<times> string \<times> string"

definition res_host :: "check_result \<Rightarrow> string" where
  "res_host r = fst r"

definition res_days :: "check_result \<Rightarrow> int option" where
  "res_days r = fst (snd r)"

definition res_status :: "check_result \<Rightarrow> string" where
  "res_status r = fst (snd (snd r))"

definition res_issuer :: "check_result \<Rightarrow> string" where
  "res_issuer r = snd (snd (snd r))"

subsection \<open>The environment\<close>

text \<open>
  The program's effects are the network and the clock. The world they act on is a state
  of type \<open>'w\<close>, passed through every effectful call:
  \<^item> \<open>tls_connect host w\<close> stands for lines 10 to 13: the TCP connection to port 443 of
    \<open>host\<close>, the handshake under the default context and \<open>getpeercert()\<close>; it yields the
    peer certificate or the exception raised, and the world afterwards;
  \<^item> \<open>strptime s\<close> stands for \<open>datetime.strptime(s, '%b %d %H:%M:%S %Y %Z')\<close>: the parsed
    naive datetime, or the ValueError raised;
  \<^item> \<open>now w\<close> stands for \<open>datetime.now()\<close>.
\<close>

record 'w env =
  tls_connect :: "string \<Rightarrow> 'w \<Rightarrow> (exn + peercert) \<times> 'w"
  strptime :: "string \<Rightarrow> exn + datetime"
  now :: "'w \<Rightarrow> datetime \<times> 'w"

subsection \<open>get_cert_info\<close>

text \<open>
  \<open>x[0] for x in cert['issuer']\<close>: the first pair of every relative distinguished name;
  indexing an empty tuple raises IndexError.
\<close>

fun first_pairs :: "(string \<times> string) list list \<Rightarrow> exn + (string \<times> string) list" where
  "first_pairs [] = Inr []"
| "first_pairs ([] # rdns) = Inl (Exn ''IndexError'' ''tuple index out of range'')"
| "first_pairs ((p # ps) # rdns) =
     (case first_pairs rdns of Inl e \<Rightarrow> Inl e | Inr qs \<Rightarrow> Inr (p # qs))"

text \<open>\<open>dict(pairs)\<close>: the pairs are stored from left to right, a later key overwrites.\<close>

fun py_dict :: "(string \<times> string) list \<Rightarrow> (string \<rightharpoonup> string) \<Rightarrow> (string \<rightharpoonup> string)" where
  "py_dict [] m = m"
| "py_dict ((k, v) # ps) m = py_dict ps (m(k \<mapsto> v))"

text \<open>\<open>d.get(key, default)\<close>.\<close>

definition dict_get :: "(string \<rightharpoonup> string) \<Rightarrow> string \<Rightarrow> string \<Rightarrow> string" where
  "dict_get d k dflt = (case d k of None \<Rightarrow> dflt | Some v \<Rightarrow> v)"

definition get_cert_info :: "'w env \<Rightarrow> string \<Rightarrow> 'w \<Rightarrow> (exn + datetime \<times> string) \<times> 'w" where
  "get_cert_info E host w =
     (case tls_connect E host w of
        (Inl e, w1) \<Rightarrow> (Inl e, w1)
      | (Inr cert, w1) \<Rightarrow>
          (let expiry_str = notAfter cert in
           case strptime E expiry_str of
             Inl e \<Rightarrow> (Inl e, w1)
           | Inr expiry \<Rightarrow>
               (case first_pairs (issuer cert) of
                  Inl e \<Rightarrow> (Inl e, w1)
                | Inr pairs \<Rightarrow>
                    (let issuer_d = py_dict pairs Map.empty;
                         issuer_name = dict_get issuer_d ''organizationName'' ''Unknown Issuer''
                     in (Inr (expiry, issuer_name), w1)))))"

subsection \<open>check_expiry\<close>

text \<open>
  The \<open>for\<close> loop of lines 23 to 36, with the list \<open>results\<close> as accumulator. The \<open>try\<close>
  block is the \<open>Inr\<close> branch; \<open>except Exception as e\<close> is the \<open>Inl\<close> branch.
\<close>

fun check_expiry_loop ::
  "'w env \<Rightarrow> string list \<Rightarrow> check_result list \<Rightarrow> 'w \<Rightarrow> check_result list \<times> 'w" where
  "check_expiry_loop E [] results w = (results, w)"
| "check_expiry_loop E (host # hosts) results w =
     (case get_cert_info E host w of
        (Inr (expiry, issuer_name), w1) \<Rightarrow>
          (case now E w1 of (now_v, w2) \<Rightarrow>
             (let days_left = days (datetime_sub expiry now_v);
                  status = (if days_left < 0 then ''Expired''
                            else if days_left < 30 then ''Expiring Soon''
                            else ''Valid'')
              in check_expiry_loop E hosts
                   (results @ [(host, Some days_left, status, issuer_name)]) w2))
      | (Inl e, w1) \<Rightarrow>
          check_expiry_loop E hosts
            (results @ [(host, None, ''Error: '' @ exn_str e, ''Unknown Issuer'')]) w1)"

definition check_expiry :: "'w env \<Rightarrow> string list \<Rightarrow> 'w \<Rightarrow> check_result list \<times> 'w" where
  "check_expiry E hosts w = check_expiry_loop E hosts [] w"

text \<open>
  Lines 76 to 80 of \<open>main\<close>: the hosts are checked one at a time and the rows collected
  with \<open>extend\<close> (the progress bar is display only).
\<close>

fun main_loop ::
  "'w env \<Rightarrow> string list \<Rightarrow> check_result list \<Rightarrow> 'w \<Rightarrow> check_result list \<times> 'w" where
  "main_loop E [] results w = (results, w)"
| "main_loop E (host # hosts) results w =
     (case check_expiry E [host] w of (rs, w1) \<Rightarrow> main_loop E hosts (results @ rs) w1)"

subsection \<open>Notions used in the statements\<close>

text \<open>The status of a failed host is the string \<open>Error: \<close> followed by \<open>str(e)\<close>.\<close>

definition is_error_status :: "string \<Rightarrow> bool" where
  "is_error_status s = (take 7 s = ''Error: '')"

text \<open>One day in microseconds.\<close>

definition day_us :: int where
  "day_us = 86400000000"

text \<open>
  The day count as the specification words it: the whole-day part of a difference in
  microseconds, truncated toward zero (floor for a positive difference, ceiling for a
  negative one). It is compared with what \<open>(expiry - now).days\<close> computes.
\<close>

definition spec_days_truncated :: "int \<Rightarrow> int" where
  "spec_days_truncated diff =
     (if 0 \<le> diff then diff div day_us else - ((- diff) div day_us))"

text \<open>
  A fixed (mocked) fetcher: what connecting to a host yields does not depend on the
  world. A fixed current instant: every reading of the clock is \<open>t\<close>.
\<close>

definition fixed_fetcher :: "'w env \<Rightarrow> (string \<Rightarrow> exn + peercert) \<Rightarrow> bool" where
  "fixed_fetcher E f = (\<forall>host w. fst (tls_connect E host w) = f host)"

definition fixed_now :: "'w env \<Rightarrow> datetime \<Rightarrow> bool" where
  "fixed_now E t = (\<forall>w. fst (now E w) = t)"

text \<open>
  Two rows for the same host from two calls agree up to the clock: same host, same
  issuer, failed in both or in neither, and the same status whenever the day counts are
  the same.
\<close>

definition agree_up_to_clock :: "check_result \<Rightarrow> check_result \<Rightarrow> bool" where
  "agree_up_to_clock a b =
     (res_host a = res_host b \<and> res_issuer a = res_issuer b \<and>
      (res_days a = None) = (res_days b = None) \<and>
      (res_days a \<noteq> res_days b \<or> res_status a = res_status b))"

subsection \<open>A mocked environment for concrete runs\<close>

text \<open>
  The world is the number of effectful calls made so far; the fetcher is a table from
  hosts to outcomes, the clock a function of the world.
\<close>

definition mock_env ::
  "(string \<Rightarrow> exn + peercert) \<Rightarrow> (string \<Rightarrow> exn + datetime) \<Rightarrow> (nat \<Rightarrow> datetime) \<Rightarrow> nat env" where
  "mock_env fetch parse clock =
     \<lparr>tls_connect = (\<lambda>host w. (fetch host, Suc w)),
      strptime = parse,
      now = (\<lambda>w. (clock w, Suc w))\<rparr>"

text \<open>\<open>Jan  5 23:59:59 2026 GMT\<close> in microseconds since 0001-01-01 00:00:00.\<close>

definition sample_expiry :: datetime where
  "sample_expiry = 63903254399000000"

definition sample_parse :: "string \<Rightarrow> exn + datetime" where
  "sample_parse s =
     (if s = ''Jan  5 23:59:59 2026 GMT'' then Inr sample_expiry
      else Inl (Exn ''ValueError''
                 (''time data '' @ s @ '' does not match format '' @
                  ''%b %d %H:%M:%S %Y %Z'')))"

definition sample_cert :: peercert where
  "sample_cert =
     \<lparr>notAfter = ''Jan  5 23:59:59 2026 GMT'',
      issuer = [[(''countryName'', ''US'')],
                [(''organizationName'', ''ExampleCA'')],
                [(''commonName'', ''Example Root'')]]\<rparr>"

text \<open>A certificate whose expiry field is not in the expected format.\<close>

definition malformed_cert :: peercert where
  "malformed_cert =
     \<lparr>notAfter = ''2026-01-05T23:59:59Z'',
      issuer = [[(''organizationName'', ''ExampleCA'')]]\<rparr>"

text \<open>
  A certificate whose issuer has a multi-valued relative distinguished name, with the
  organization as its second attribute.
\<close>

definition multi_rdn_cert :: peercert where
  "multi_rdn_cert =
     \<lparr>notAfter = ''Jan  5 23:59:59 2026 GMT'',
      issuer = [[(''countryName'', ''US'')],
                [(''commonName'', ''Example Root''), (''organizationName'', ''ExampleCA'')]]\<rparr>"

definition sample_fetch :: "string \<Rightarrow> exn + peercert" where
  "sample_fetch host =
     (if host = ''valid-example.test'' then Inr sample_cert
      else if host = ''malformed.test'' then Inr malformed_cert
      else if host = ''multi.test'' then Inr multi_rdn_cert
      else Inl (Exn ''ConnectionRefusedError'' ''[Errno 111] Connection refused''))"

section \<open>Properties\<close>

subsection \<open>The loop, one host at a time\<close>

lemma check_expiry_loop_acc:
  "check_expiry_loop E hosts (acc @ results) w =
     (acc @ fst (check_expiry_loop E hosts results w), snd (check_expiry_loop E hosts results w))"
proof (induction hosts arbitrary: results w)
  case Nil
  show ?case by simp
next
  case (Cons host hosts)
  show ?case
    by (simp add: Cons.IH [symmetric] Let_def split: prod.splits sum.splits)
qed

lemma check_expiry_Nil: "check_expiry E [] w = ([], w)"
  by (simp add: check_expiry_def)

lemma check_expiry_single_err:
  assumes "get_cert_info E host w = (Inl e, w1)"
  shows "check_expiry E [host] w =
           ([(host, None, ''Error: '' @ exn_str e, ''Unknown Issuer'')], w1)"
  using assms by (simp add: check_expiry_def)

lemma check_expiry_single_ok:
  assumes "get_cert_info E host w = (Inr (expiry, issuer_name), w1)"
    and "now E w1 = (t, w2)"
  shows "check_expiry E [host] w =
           ([(host, Some (days (datetime_sub expiry t)),
              (if days (datetime_sub expiry t) < 0 then ''Expired''
               else if days (datetime_sub expiry t) < 30 then ''Expiring Soon''
               else ''Valid''),
              issuer_name)], w2)"
  using assms by (simp add: check_expiry_def Let_def)

lemma check_expiry_Cons:
  "check_expiry E (host # hosts) w =
     (fst (check_expiry E [host] w) @ fst (check_expiry E hosts (snd (check_expiry E [host] w))),
      snd (check_expiry E hosts (snd (check_expiry E [host] w))))"
proof (cases "get_cert_info E host w")
  case (Pair res w1)
  show ?thesis
  proof (cases res)
    case (Inl e)
    have "check_expiry_loop E hosts ([(host, None, ''Error: '' @ exn_str e, ''Unknown Issuer'')] @ []) w1
            = ([(host, None, ''Error: '' @ exn_str e, ''Unknown Issuer'')] @ fst (check_expiry_loop E hosts [] w1),
               snd (check_expiry_loop E hosts [] w1))"
      by (rule check_expiry_loop_acc)
    with Pair Inl show ?thesis
      by (simp add: check_expiry_def)
  next
    case (Inr ok)
    obtain expiry issuer_name where ok: "ok = (expiry, issuer_name)"
      by (cases ok)
    obtain t w2 where t: "now E w1 = (t, w2)"
      by (cases "now E w1")
    let ?row = "(host, Some (days (datetime_sub expiry t)),
              (if days (datetime_sub expiry t) < 0 then ''Expired''
               else if days (datetime_sub expiry t) < 30 then ''Expiring Soon''
               else ''Valid''),
              issuer_name)"
    have "check_expiry_loop E hosts ([?row] @ []) w2
            = ([?row] @ fst (check_expiry_loop E hosts [] w2), snd (check_expiry_loop E hosts [] w2))"
      by (rule check_expiry_loop_acc)
    with Pair Inr ok t show ?thesis
      by (simp add: check_expiry_def Let_def)
  qed
qed

lemma check_expiry_append:
  "check_expiry E (xs @ ys) w =
     (fst (check_expiry E xs w) @ fst (check_expiry E ys (snd (check_expiry E xs w))),
      snd (check_expiry E ys (snd (check_expiry E xs w))))"
proof (induction xs arbitrary: w)
  case Nil
  show ?case by (simp add: check_expiry_Nil)
next
  case (Cons x xs)
  have "check_expiry E ((x # xs) @ ys) w = check_expiry E (x # (xs @ ys)) w"
    by simp
  also have "\<dots> =
      (fst (check_expiry E [x] w) @ fst (check_expiry E (xs @ ys) (snd (check_expiry E [x] w))),
       snd (check_expiry E (xs @ ys) (snd (check_expiry E [x] w))))"
    by (rule check_expiry_Cons)
  finally show ?case
    by (simp add: Cons.IH check_expiry_Cons [of E x xs w])
qed

text \<open>The row of one host is one of two shapes.\<close>

lemma check_expiry_single_cases:
  obtains (failed) e w1 where "get_cert_info E host w = (Inl e, w1)"
      and "check_expiry E [host] w =
             ([(host, None, ''Error: '' @ exn_str e, ''Unknown Issuer'')], w1)"
  | (fetched) expiry issuer_name w1 t w2
      where "get_cert_info E host w = (Inr (expiry, issuer_name), w1)"
        and "now E w1 = (t, w2)"
        and "check_expiry E [host] w =
               ([(host, Some (days (datetime_sub expiry t)),
                  (if days (datetime_sub expiry t) < 0 then ''Expired''
                   else if days (datetime_sub expiry t) < 30 then ''Expiring Soon''
                   else ''Valid''),
                  issuer_name)], w2)"
proof (cases "get_cert_info E host w")
  case (Pair res w1)
  show ?thesis
  proof (cases res)
    case (Inl e)
    with Pair have g: "get_cert_info E host w = (Inl e, w1)" by simp
    from failed [OF g check_expiry_single_err [OF g]] show ?thesis .
  next
    case (Inr ok)
    obtain expiry issuer_name where ok: "ok = (expiry, issuer_name)"
      by (cases ok)
    obtain t w2 where t: "now E w1 = (t, w2)"
      by (cases "now E w1")
    from Pair Inr ok have g: "get_cert_info E host w = (Inr (expiry, issuer_name), w1)"
      by simp
    from fetched [OF g t check_expiry_single_ok [OF g t]] show ?thesis .
  qed
qed

text \<open>Every row of a batch is the row of one of its hosts, checked in some world.\<close>

lemma check_expiry_rows:
  assumes "r \<in> set (fst (check_expiry E hosts w))"
  shows "\<exists>host w0. host \<in> set hosts \<and> fst (check_expiry E [host] w0) = [r]"
  using assms
proof (induction hosts arbitrary: w)
  case Nil
  then show ?case by (simp add: check_expiry_Nil)
next
  case (Cons h hs)
  from Cons.prems
  consider "r \<in> set (fst (check_expiry E [h] w))"
    | "r \<in> set (fst (check_expiry E hs (snd (check_expiry E [h] w))))"
    by (auto simp: check_expiry_Cons [of E h hs w])
  then show ?case
  proof cases
    case 1
    have "fst (check_expiry E [h] w) = [r]"
      using 1 by (cases rule: check_expiry_single_cases [of E h w]) auto
    then show ?thesis by auto
  next
    case 2
    from Cons.IH [OF 2] show ?thesis by auto
  qed
qed

lemma days_datetime_sub: "days (datetime_sub a b) = (a - b) div day_us"
proof -
  have "(a - b) div 1000000 div 86400 = (a - b) div (1000000 * 86400)"
    by (simp add: zdiv_zmult2_eq)
  then show ?thesis
    by (simp add: datetime_sub_def mk_timedelta_def Let_def day_us_def)
qed

subsection \<open>Runs in the mocked environment\<close>

lemma mock_now: "now (mock_env fetch parse clock) w = (clock w, Suc w)"
  by (simp add: mock_env_def)

lemma mock_tls_connect: "tls_connect (mock_env fetch parse clock) host w = (fetch host, Suc w)"
  by (simp add: mock_env_def)

lemma mock_strptime: "strptime (mock_env fetch parse clock) = parse"
  by (simp add: mock_env_def)

lemma sample_cert_issuer_name:
  "dict_get (py_dict [(''countryName'', ''US''), (''organizationName'', ''ExampleCA''),
                      (''commonName'', ''Example Root'')] Map.empty)
     ''organizationName'' ''Unknown Issuer'' = ''ExampleCA''"
  by (simp add: dict_get_def)

lemma sample_get_cert_info:
  "get_cert_info (mock_env sample_fetch sample_parse clock) ''valid-example.test'' w =
     (Inr (sample_expiry, ''ExampleCA''), Suc w)"
proof -
  have f: "sample_fetch ''valid-example.test'' = Inr sample_cert"
    by (simp add: sample_fetch_def)
  have p: "sample_parse (notAfter sample_cert) = Inr sample_expiry"
    by (simp add: sample_parse_def sample_cert_def)
  have i: "first_pairs (issuer sample_cert) =
             Inr [(''countryName'', ''US''), (''organizationName'', ''ExampleCA''),
                  (''commonName'', ''Example Root'')]"
    by (simp add: sample_cert_def)
  show ?thesis
    by (simp add: get_cert_info_def mock_tls_connect mock_strptime f p i
          sample_cert_issuer_name del: py_dict.simps)
qed

subsection \<open>One row per host, in input order\<close>

text \<open>
  Claim C1. For every sequence of hostnames, in every environment (whatever fails there)
  and every world, \<open>check_expiry\<close> returns exactly one row per input hostname, in input
  order, and the host field of each row is the corresponding input hostname verbatim.
\<close>

theorem check_expiry_one_row_per_host:
  "length (fst (check_expiry E hosts w)) = length hosts \<and>
   map res_host (fst (check_expiry E hosts w)) = hosts"
proof -
  have hosts_eq: "map res_host (fst (check_expiry E hosts w)) = hosts"
  proof (induction hosts arbitrary: w)
    case Nil
    show ?case by (simp add: check_expiry_Nil)
  next
    case (Cons h hs)
    have "map res_host (fst (check_expiry E [h] w)) = [h]"
      by (cases rule: check_expiry_single_cases [of E h w]) (simp_all add: res_host_def)
    then show ?case
      by (simp add: check_expiry_Cons [of E h hs w] Cons.IH)
  qed
  from hosts_eq have "length (map res_host (fst (check_expiry E hosts w))) = length hosts"
    by simp
  then have "length (fst (check_expiry E hosts w)) = length hosts"
    by simp
  with hosts_eq show ?thesis by simp
qed

subsection \<open>Failures are contained per host\<close>

lemma get_cert_info_connect_failed:
  assumes "tls_connect E host w = (Inl e, w1)"
  shows "get_cert_info E host w = (Inl e, w1)"
  using assms by (simp add: get_cert_info_def)

lemma get_cert_info_parse_failed:
  assumes "tls_connect E host w = (Inr cert, w1)"
    and "strptime E (notAfter cert) = Inl e"
  shows "get_cert_info E host w = (Inl e, w1)"
  using assms by (simp add: get_cert_info_def)

text \<open>
  Claim C2. If the fetch of a host fails with an exception \<open>e\<close> (the connection or the
  handshake raises, or the \<open>notAfter\<close> field does not parse, or \<open>get_cert_info\<close> raises
  for any other reason), the row of that host is
  \<open>(host, None, "Error: " + str(e), "Unknown Issuer")\<close>, and the loop goes on with the
  remaining hosts from the world the failed fetch left: nothing is raised to the caller.
\<close>

theorem check_expiry_failure_row:
  assumes "get_cert_info E host w = (Inl e, w1)
           \<or> tls_connect E host w = (Inl e, w1)
           \<or> (\<exists>cert. tls_connect E host w = (Inr cert, w1) \<and> strptime E (notAfter cert) = Inl e)"
  shows "check_expiry E (host # rest) w =
           ((host, None, ''Error: '' @ exn_str e, ''Unknown Issuer'') # fst (check_expiry E rest w1),
            snd (check_expiry E rest w1))"
proof -
  from assms have g: "get_cert_info E host w = (Inl e, w1)"
  proof (elim disjE exE conjE)
    assume "get_cert_info E host w = (Inl e, w1)"
    then show ?thesis .
  next
    assume "tls_connect E host w = (Inl e, w1)"
    then show ?thesis by (rule get_cert_info_connect_failed)
  next
    fix cert
    assume "tls_connect E host w = (Inr cert, w1)" and "strptime E (notAfter cert) = Inl e"
    then show ?thesis by (rule get_cert_info_parse_failed)
  qed
  show ?thesis
    by (simp add: check_expiry_Cons [of E host rest w] check_expiry_single_err [OF g])
qed

lemma sample_fetch_unreachable:
  "sample_fetch ''unreachable.test'' =
     Inl (Exn ''ConnectionRefusedError'' ''[Errno 111] Connection refused'')"
  by (simp add: sample_fetch_def)

lemma sample_parse_malformed:
  "sample_parse ''2026-01-05T23:59:59Z'' =
     Inl (Exn ''ValueError''
       ''time data 2026-01-05T23:59:59Z does not match format %b %d %H:%M:%S %Y %Z'')"
  by (simp add: sample_parse_def)

theorem check_expiry_failure_row_witness:
  "check_expiry (mock_env sample_fetch sample_parse (\<lambda>n. sample_expiry)) [''unreachable.test'', ''malformed.test''] 0 =
     ([(''unreachable.test'', None, ''Error: [Errno 111] Connection refused'', ''Unknown Issuer''),
       (''malformed.test'', None,
        ''Error: time data 2026-01-05T23:59:59Z does not match format %b %d %H:%M:%S %Y %Z'',
        ''Unknown Issuer'')], 2)"
proof -
  let ?E = "mock_env sample_fetch sample_parse (\<lambda>n. sample_expiry)"
  have c1: "tls_connect ?E ''unreachable.test'' 0 =
              (Inl (Exn ''ConnectionRefusedError'' ''[Errno 111] Connection refused''), 1)"
    by (simp add: mock_env_def sample_fetch_unreachable)
  have c2: "tls_connect ?E ''malformed.test'' 1 = (Inr malformed_cert, 2)"
    by (simp add: mock_env_def sample_fetch_def)
  have p2: "strptime ?E (notAfter malformed_cert) =
              Inl (Exn ''ValueError''
                ''time data 2026-01-05T23:59:59Z does not match format %b %d %H:%M:%S %Y %Z'')"
    by (simp add: mock_env_def malformed_cert_def sample_parse_malformed)
  from c2 p2 have h2: "\<exists>cert. tls_connect ?E ''malformed.test'' 1 = (Inr cert, 2) \<and>
      strptime ?E (notAfter cert) =
        Inl (Exn ''ValueError''
          ''time data 2026-01-05T23:59:59Z does not match format %b %d %H:%M:%S %Y %Z'')"
    by blast
  have r2: "check_expiry ?E [''malformed.test''] 1 =
      ([(''malformed.test'', None,
         ''Error: time data 2026-01-05T23:59:59Z does not match format %b %d %H:%M:%S %Y %Z'',
         ''Unknown Issuer'')], 2)"
    using check_expiry_failure_row [where E = ?E and host = "''malformed.test''" and w = 1
        and ?w1.0 = 2 and rest = "[]", OF disjI2 [OF disjI2 [OF h2]]]
    by (simp add: check_expiry_Nil)
  show ?thesis
    using check_expiry_failure_row [where E = ?E and host = "''unreachable.test''" and w = 0
        and ?w1.0 = 1 and rest = "[''malformed.test'']", OF disjI2 [OF disjI1 [OF c1]]] r2
    by simp
qed

subsection \<open>Classification\<close>

text \<open>
  Claim C3. In every row of a successfully fetched host the status follows from the day
  count: below 0 it is \<open>Expired\<close>, from 0 up to 29 it is \<open>Expiring Soon\<close>, from 30 on it
  is \<open>Valid\<close>. In particular a certificate that expires exactly 30 days after the instant
  sampled for its host has day count 30 and status \<open>Valid\<close>.
\<close>

theorem check_expiry_classification:
  "(\<forall>r \<in> set (fst (check_expiry E hosts w)). \<forall>d. res_days r = Some d \<longrightarrow>
       (d < 0 \<longrightarrow> res_status r = ''Expired'') \<and>
       (0 \<le> d \<and> d < 30 \<longrightarrow> res_status r = ''Expiring Soon'') \<and>
       (30 \<le> d \<longrightarrow> res_status r = ''Valid'')) \<and>
   (get_cert_info E host w = (Inr (expiry, issuer_name), w1) \<and> now E w1 = (t, w2) \<longrightarrow>
       (\<exists>d st. check_expiry E [host] w = ([(host, Some d, st, issuer_name)], w2) \<and>
          (d < 0 \<longrightarrow> st = ''Expired'') \<and>
          (0 \<le> d \<and> d < 30 \<longrightarrow> st = ''Expiring Soon'') \<and>
          (30 \<le> d \<longrightarrow> st = ''Valid'') \<and>
          (expiry = t + 30 * day_us \<longrightarrow> d = 30 \<and> st = ''Valid'')))"
proof (intro conjI ballI allI impI)
  fix r d
  assume r: "r \<in> set (fst (check_expiry E hosts w))" and d: "res_days r = Some d"
  from check_expiry_rows [OF r] obtain h w0
    where row: "fst (check_expiry E [h] w0) = [r]" by blast
  have cls: "res_status r =
      (if d < 0 then ''Expired'' else if d < 30 then ''Expiring Soon'' else ''Valid'')"
    using row d
    by (cases rule: check_expiry_single_cases [of E h w0])
       (auto simp: res_days_def res_status_def)
  { assume "d < 0" with cls show "res_status r = ''Expired''" by simp }
  { assume "0 \<le> d \<and> d < 30" with cls show "res_status r = ''Expiring Soon''" by simp }
  { assume "30 \<le> d" with cls show "res_status r = ''Valid''" by simp }
next
  assume a: "get_cert_info E host w = (Inr (expiry, issuer_name), w1) \<and> now E w1 = (t, w2)"
  then have g: "get_cert_info E host w = (Inr (expiry, issuer_name), w1)"
    and n: "now E w1 = (t, w2)" by simp_all
  have thirty: "expiry = t + 30 * day_us \<Longrightarrow> days (datetime_sub expiry t) = 30"
    by (simp add: days_datetime_sub day_us_def)
  show "\<exists>d st. check_expiry E [host] w = ([(host, Some d, st, issuer_name)], w2) \<and>
          (d < 0 \<longrightarrow> st = ''Expired'') \<and>
          (0 \<le> d \<and> d < 30 \<longrightarrow> st = ''Expiring Soon'') \<and>
          (30 \<le> d \<longrightarrow> st = ''Valid'') \<and>
          (expiry = t + 30 * day_us \<longrightarrow> d = 30 \<and> st = ''Valid'')"
    using check_expiry_single_ok [OF g n] thirty by auto
qed

theorem check_expiry_classification_witness:
  "check_expiry (mock_env sample_fetch sample_parse (\<lambda>n. sample_expiry - 30 * day_us))
     [''valid-example.test''] 0 =
     ([(''valid-example.test'', Some 30, ''Valid'', ''ExampleCA'')], 2)"
proof -
  let ?E = "mock_env sample_fetch sample_parse (\<lambda>n. sample_expiry - 30 * day_us)"
  let ?h = "''valid-example.test''"
  have g: "get_cert_info ?E ?h 0 = (Inr (sample_expiry, ''ExampleCA''), 1)"
    by (simp add: sample_get_cert_info)
  have n: "now ?E 1 = (sample_expiry - 30 * day_us, 2)"
    by (simp add: mock_now)
  note c = check_expiry_classification [where E = ?E and hosts = "[?h]" and w = 0
      and host = ?h and expiry = sample_expiry and issuer_name = "''ExampleCA''"
      and ?w1.0 = 1 and t = "sample_expiry - 30 * day_us" and ?w2.0 = 2]
  from c g n obtain d st
    where row: "check_expiry ?E [?h] 0 = ([(?h, Some d, st, ''ExampleCA'')], 2)"
      and d: "d = 30" and st30: "30 \<le> d \<longrightarrow> st = ''Valid''"
    by auto
  from row have "(?h, Some d, st, ''ExampleCA'') \<in> set (fst (check_expiry ?E [?h] 0))"
    by simp
  with c have "30 \<le> d \<longrightarrow> res_status (?h, Some d, st, ''ExampleCA'') = ''Valid''"
    by (simp add: res_days_def)
  with d have "st = ''Valid''"
    by (simp add: res_status_def)
  with row d show ?thesis by simp
qed

subsection \<open>The day count\<close>

text \<open>
  Claim C4, as the specification states it, says that the day count is the difference
  truncated toward zero, so that an expiry a few hours in the past reports 0. The code
  reads \<open>.days\<close> of a normalised \<open>timedelta\<close>, which is the floor: for an expiry three hours
  before the sampled instant the row has day count -1 (and status \<open>Expired\<close>), where
  truncation gives 0.
\<close>

theorem days_truncation_counterexample:
  "check_expiry (mock_env sample_fetch sample_parse (\<lambda>n. sample_expiry + 3 * 3600000000))
     [''valid-example.test''] 0 =
     ([(''valid-example.test'', Some (- 1), ''Expired'', ''ExampleCA'')], 2) \<and>
   spec_days_truncated (sample_expiry - (sample_expiry + 3 * 3600000000)) = 0"
proof -
  let ?E = "mock_env sample_fetch sample_parse (\<lambda>n. sample_expiry + 3 * 3600000000)"
  have g: "get_cert_info ?E ''valid-example.test'' 0 = (Inr (sample_expiry, ''ExampleCA''), 1)"
    by (simp add: sample_get_cert_info)
  have n: "now ?E 1 = (sample_expiry + 3 * 3600000000, 2)"
    by (simp add: mock_now)
  have "check_expiry ?E [''valid-example.test''] 0 =
     ([(''valid-example.test'', Some (- 1), ''Expired'', ''ExampleCA'')], 2)"
    using check_expiry_single_ok [OF g n] by (simp add: days_datetime_sub day_us_def)
  moreover have "spec_days_truncated (sample_expiry - (sample_expiry + 3 * 3600000000)) = 0"
    by (simp add: spec_days_truncated_def day_us_def)
  ultimately show ?thesis by simp
qed

text \<open>
  Claim C4, amended. For every successfully fetched host the day count is the floor of
  the difference, in days, between the expiry and the instant sampled for that host
  right after its own fetch. It agrees with truncation toward zero when the expiry is
  not in the past, and is one less than the truncated count when the expiry is in the
  past by a time that is not a whole number of days. An expiry 29 days and 23 hours
  ahead reports 29; an expiry 3 hours in the past reports -1.
\<close>

theorem check_expiry_days_floor:
  assumes "get_cert_info E host w = (Inr (expiry, issuer_name), w1)"
    and "now E w1 = (t, w2)"
  shows "\<exists>d st. check_expiry E [host] w = ([(host, Some d, st, issuer_name)], w2) \<and>
           d = (expiry - t) div day_us \<and>
           (t \<le> expiry \<longrightarrow> d = spec_days_truncated (expiry - t)) \<and>
           (expiry < t \<and> (t - expiry) mod day_us \<noteq> 0 \<longrightarrow>
              d = spec_days_truncated (expiry - t) - 1) \<and>
           (expiry < t \<and> (t - expiry) mod day_us = 0 \<longrightarrow>
              d = spec_days_truncated (expiry - t)) \<and>
           (expiry = t + 29 * day_us + 23 * 3600000000 \<longrightarrow> d = 29) \<and>
           (expiry = t - 3 * 3600000000 \<longrightarrow> d = - 1)"
proof -
  let ?d = "(expiry - t) div day_us"
  have pos: "(0::int) < day_us" by (simp add: day_us_def)
  have a: "t \<le> expiry \<longrightarrow> ?d = spec_days_truncated (expiry - t)"
    by (simp add: spec_days_truncated_def)
  have neg: "(expiry - t) div day_us = - ((t - expiry) div day_us) - (if (t - expiry) mod day_us = 0 then 0 else 1)"
    using zdiv_zminus1_eq_if [of day_us "t - expiry"] pos by simp
  have b: "expiry < t \<and> (t - expiry) mod day_us \<noteq> 0 \<longrightarrow>
             ?d = spec_days_truncated (expiry - t) - 1"
    using neg by (simp add: spec_days_truncated_def)
  have c: "expiry < t \<and> (t - expiry) mod day_us = 0 \<longrightarrow>
             ?d = spec_days_truncated (expiry - t)"
    using neg by (simp add: spec_days_truncated_def)
  have e1: "expiry = t + 29 * day_us + 23 * 3600000000 \<longrightarrow> ?d = 29"
    by (simp add: day_us_def)
  have e2: "expiry = t - 3 * 3600000000 \<longrightarrow> ?d = - 1"
    by (simp add: day_us_def)
  have row: "check_expiry E [host] w =
      ([(host, Some ?d,
         (if ?d < 0 then ''Expired'' else if ?d < 30 then ''Expiring Soon'' else ''Valid''),
         issuer_name)], w2)"
    using check_expiry_single_ok [OF assms] by (simp add: days_datetime_sub)
  show ?thesis
  proof (intro exI conjI)
    show "check_expiry E [host] w =
      ([(host, Some ?d,
         (if ?d < 0 then ''Expired'' else if ?d < 30 then ''Expiring Soon'' else ''Valid''),
         issuer_name)], w2)"
      by (rule row)
    show "?d = (expiry - t) div day_us" by (rule refl)
  qed (rule a b c e1 e2)+
qed

theorem check_expiry_days_floor_witness:
  "check_expiry (mock_env sample_fetch sample_parse
       (\<lambda>n. sample_expiry - 29 * day_us - 23 * 3600000000))
     [''valid-example.test''] 0 =
     ([(''valid-example.test'', Some 29, ''Expiring Soon'', ''ExampleCA'')], 2)"
proof -
  let ?t = "sample_expiry - 29 * day_us - 23 * 3600000000"
  let ?E = "mock_env sample_fetch sample_parse (\<lambda>n. ?t)"
  let ?h = "''valid-example.test''"
  have g: "get_cert_info ?E ?h 0 = (Inr (sample_expiry, ''ExampleCA''), 1)"
    by (simp add: sample_get_cert_info)
  have n: "now ?E 1 = (?t, 2)"
    by (simp add: mock_now)
  from check_expiry_days_floor [OF g n] obtain d st
    where row: "check_expiry ?E [?h] 0 = ([(?h, Some d, st, ''ExampleCA'')], 2)"
      and d: "d = 29"
    by auto
  have row': "check_expiry ?E [?h] 0 =
      ([(?h, Some (days (datetime_sub sample_expiry ?t)),
         (if days (datetime_sub sample_expiry ?t) < 0 then ''Expired''
          else if days (datetime_sub sample_expiry ?t) < 30 then ''Expiring Soon''
          else ''Valid''), ''ExampleCA'')], 2)"
    by (rule check_expiry_single_ok [OF g n])
  from row row' d have "days (datetime_sub sample_expiry ?t) = 29" by simp
  with row' show ?thesis by simp
qed

subsection \<open>Expiry at or before the sampled instant\<close>

text \<open>
  Claim C5, as the specification states it, says that an expiry exactly at the sampled
  instant gives status \<open>Expired\<close>. The code gives day count 0 there, and 0 is classified
  \<open>Expiring Soon\<close>.
\<close>

theorem expiry_now_counterexample:
  "check_expiry (mock_env sample_fetch sample_parse (\<lambda>n. sample_expiry))
     [''valid-example.test''] 0 =
     ([(''valid-example.test'', Some 0, ''Expiring Soon'', ''ExampleCA'')], 2) \<and>
   get_cert_info (mock_env sample_fetch sample_parse (\<lambda>n. sample_expiry))
     ''valid-example.test'' 0 = (Inr (sample_expiry, ''ExampleCA''), 1) \<and>
   now (mock_env sample_fetch sample_parse (\<lambda>n. sample_expiry)) 1 = (sample_expiry, 2) \<and>
   ''Expiring Soon'' \<noteq> ''Expired''"
proof -
  let ?E = "mock_env sample_fetch sample_parse (\<lambda>n. sample_expiry)"
  have g: "get_cert_info ?E ''valid-example.test'' 0 = (Inr (sample_expiry, ''ExampleCA''), 1)"
    by (simp add: sample_get_cert_info)
  have n: "now ?E 1 = (sample_expiry, 2)"
    by (simp add: mock_now)
  have d: "days (datetime_sub sample_expiry sample_expiry) = 0"
    by (simp add: days_datetime_sub)
  have "check_expiry ?E [''valid-example.test''] 0 =
     ([(''valid-example.test'', Some 0, ''Expiring Soon'', ''ExampleCA'')], 2)"
    using check_expiry_single_ok [OF g n] by (simp add: d)
  with g n show ?thesis by simp
qed

text \<open>
  Claim C5, amended. For every successfully fetched host whose expiry is at or before the
  instant sampled for it, the day count is at most 0. When the expiry is strictly before
  that instant the day count is negative and the status is \<open>Expired\<close>; when the expiry
  is exactly that instant the day count is 0 and the status is \<open>Expiring Soon\<close>.
\<close>

theorem check_expiry_past_expiry:
  assumes "get_cert_info E host w = (Inr (expiry, issuer_name), w1)"
    and "now E w1 = (t, w2)"
    and "expiry \<le> t"
  shows "\<exists>d st. check_expiry E [host] w = ([(host, Some d, st, issuer_name)], w2) \<and>
           d \<le> 0 \<and>
           (expiry < t \<longrightarrow> d < 0 \<and> st = ''Expired'') \<and>
           (expiry = t \<longrightarrow> d = 0 \<and> st = ''Expiring Soon'')"
proof -
  let ?d = "(expiry - t) div day_us"
  have pos: "(0::int) < day_us" by (simp add: day_us_def)
  have le: "?d \<le> 0"
    using assms(3) pos by (simp add: div_nonpos_pos_le0)
  have lt: "expiry < t \<longrightarrow> ?d < 0"
    using pos by (simp add: div_neg_pos_less0)
  have eq: "expiry = t \<longrightarrow> ?d = 0" by simp
  have row: "check_expiry E [host] w =
      ([(host, Some ?d,
         (if ?d < 0 then ''Expired'' else if ?d < 30 then ''Expiring Soon'' else ''Valid''),
         issuer_name)], w2)"
    using check_expiry_single_ok [OF assms(1,2)] by (simp add: days_datetime_sub)
  show ?thesis
  proof (intro exI conjI)
    show "check_expiry E [host] w =
      ([(host, Some ?d,
         (if ?d < 0 then ''Expired'' else if ?d < 30 then ''Expiring Soon'' else ''Valid''),
         issuer_name)], w2)"
      by (rule row)
    show "?d \<le> 0" by (rule le)
    show "expiry < t \<longrightarrow> ?d < 0 \<and>
        (if ?d < 0 then ''Expired'' else if ?d < 30 then ''Expiring Soon'' else ''Valid'') = ''Expired''"
      using lt by simp
    show "expiry = t \<longrightarrow> ?d = 0 \<and>
        (if ?d < 0 then ''Expired'' else if ?d < 30 then ''Expiring Soon'' else ''Valid'') = ''Expiring Soon''"
      by simp
  qed
qed

theorem check_expiry_past_expiry_witness:
  "check_expiry (mock_env sample_fetch sample_parse (\<lambda>n. sample_expiry + 5 * day_us))
     [''valid-example.test''] 0 =
     ([(''valid-example.test'', Some (- 5), ''Expired'', ''ExampleCA'')], 2)"
proof -
  let ?t = "sample_expiry + 5 * day_us"
  let ?E = "mock_env sample_fetch sample_parse (\<lambda>n. ?t)"
  let ?h = "''valid-example.test''"
  have g: "get_cert_info ?E ?h 0 = (Inr (sample_expiry, ''ExampleCA''), 1)"
    by (simp add: sample_get_cert_info)
  have n: "now ?E 1 = (?t, 2)"
    by (simp add: mock_now)
  have le: "sample_expiry \<le> ?t" by (simp add: day_us_def)
  have lt: "sample_expiry < ?t" by (simp add: day_us_def)
  from check_expiry_past_expiry [OF g n le] lt obtain d st
    where row: "check_expiry ?E [?h] 0 = ([(?h, Some d, st, ''ExampleCA'')], 2)"
      and st: "st = ''Expired''"
    by auto
  have row': "check_expiry ?E [?h] 0 =
      ([(?h, Some ((sample_expiry - ?t) div day_us),
         (if (sample_expiry - ?t) div day_us < 0 then ''Expired''
          else if (sample_expiry - ?t) div day_us < 30 then ''Expiring Soon''
          else ''Valid''), ''ExampleCA'')], 2)"
    using check_expiry_single_ok [OF g n] by (simp add: days_datetime_sub)
  have "(sample_expiry - ?t) div day_us = - 5" by (simp add: day_us_def)
  with row row' st show ?thesis by simp
qed

subsection \<open>The issuer name\<close>

text \<open>
  What the lookup computes: the value of the last relative distinguished name whose first
  attribute is the key, the default when there is none. For an issuer whose relative
  distinguished names all have one attribute, \<open>first_pairs\<close> keeps every attribute.
\<close>

lemma py_dict_lookup:
  "py_dict ps m k = (case map_of (rev ps) k of None \<Rightarrow> m k | Some v \<Rightarrow> Some v)"
proof (induction ps arbitrary: m)
  case Nil
  show ?case by simp
next
  case (Cons p ps)
  obtain k' v' where p: "p = (k', v')" by (cases p)
  show ?case
    by (simp add: p Cons.IH map_add_def split: option.splits)
qed

lemma dict_get_py_dict:
  "dict_get (py_dict ps Map.empty) k dflt =
     (case map_of (rev ps) k of None \<Rightarrow> dflt | Some v \<Rightarrow> v)"
  by (simp add: dict_get_def py_dict_lookup split: option.splits)

lemma first_pairs_single_valued: "first_pairs (map (\<lambda>p. [p]) ps) = Inr ps"
  by (induction ps) simp_all

text \<open>
  Claim C6 says that the issuer field is the organization name attribute of the issuer
  distinguished name whenever that attribute is present. The code builds its dictionary
  from the first pair of each relative distinguished name only, so an organization name
  that is a later attribute of a multi-valued relative distinguished name is not found:
  for such a certificate \<open>get_cert_info\<close> returns the fallback label although the
  attribute is present.
\<close>

theorem issuer_multi_valued_rdn_missed:
  "sample_fetch ''multi.test'' = Inr multi_rdn_cert \<and>
   (''organizationName'', ''ExampleCA'') \<in> set (concat (issuer multi_rdn_cert)) \<and>
   get_cert_info (mock_env sample_fetch sample_parse (\<lambda>n. sample_expiry)) ''multi.test'' 0 =
     (Inr (sample_expiry, ''Unknown Issuer''), 1)"
proof -
  have f: "sample_fetch ''multi.test'' = Inr multi_rdn_cert"
    by (simp add: sample_fetch_def)
  have m: "(''organizationName'', ''ExampleCA'') \<in> set (concat (issuer multi_rdn_cert))"
    by (simp add: multi_rdn_cert_def)
  have p: "sample_parse (notAfter multi_rdn_cert) = Inr sample_expiry"
    by (simp add: sample_parse_def multi_rdn_cert_def)
  have i: "first_pairs (issuer multi_rdn_cert) =
             Inr [(''countryName'', ''US''), (''commonName'', ''Example Root'')]"
    by (simp add: multi_rdn_cert_def)
  have d: "dict_get (py_dict [(''countryName'', ''US''), (''commonName'', ''Example Root'')]
             Map.empty) ''organizationName'' ''Unknown Issuer'' = ''Unknown Issuer''"
    by (simp add: dict_get_def)
  have "get_cert_info (mock_env sample_fetch sample_parse (\<lambda>n. sample_expiry)) ''multi.test'' 0 =
     (Inr (sample_expiry, ''Unknown Issuer''), 1)"
    by (simp add: get_cert_info_def mock_tls_connect mock_strptime f p i d del: py_dict.simps)
  with f m show ?thesis by simp
qed

subsection \<open>Two calls with the same input\<close>

lemma get_cert_info_fixed:
  assumes "fixed_fetcher E f"
  shows "fst (get_cert_info E host w) = fst (get_cert_info E host w')"
proof -
  obtain c w1 where a: "tls_connect E host w = (c, w1)"
    by (cases "tls_connect E host w")
  obtain c' w1' where b: "tls_connect E host w' = (c', w1')"
    by (cases "tls_connect E host w'")
  from assms have "fst (tls_connect E host w) = f host"
    and "fst (tls_connect E host w') = f host"
    by (simp_all add: fixed_fetcher_def)
  with a b have "c = c'" by simp
  with a b show ?thesis
    by (simp add: get_cert_info_def Let_def split: sum.splits)
qed

lemma check_expiry_single_twice:
  assumes "fixed_fetcher E f"
  shows "list_all2 agree_up_to_clock
           (fst (check_expiry E [host] w)) (fst (check_expiry E [host] w'))"
proof -
  note fx = get_cert_info_fixed [OF assms, of host w w']
  show ?thesis
  proof (cases rule: check_expiry_single_cases [of E host w])
    case (failed e w1)
    show ?thesis
    proof (cases rule: check_expiry_single_cases [of E host w'])
      case (failed e' w1')
      from fx \<open>get_cert_info E host w = (Inl e, w1)\<close> failed(1) have "e = e'" by simp
      with \<open>check_expiry E [host] w = _\<close> failed(2) show ?thesis
        by (simp add: agree_up_to_clock_def res_host_def res_issuer_def res_days_def
              res_status_def)
    next
      case (fetched expiry' issuer_name' w1' t' w2')
      from fx \<open>get_cert_info E host w = (Inl e, w1)\<close> fetched(1) show ?thesis by simp
    qed
  next
    case (fetched expiry issuer_name w1 t w2)
    show ?thesis
    proof (cases rule: check_expiry_single_cases [of E host w'])
      case (failed e' w1')
      from fx \<open>get_cert_info E host w = (Inr (expiry, issuer_name), w1)\<close> failed(1)
      show ?thesis by simp
    next
      case inner: (fetched expiry' issuer_name' w1' t' w2')
      from fx fetched(1) inner(1) have "expiry = expiry'" "issuer_name = issuer_name'"
        by simp_all
      with fetched(3) inner(3) show ?thesis
        by (simp add: agree_up_to_clock_def res_host_def res_issuer_def res_days_def
              res_status_def)
    qed
  qed
qed

lemma check_expiry_single_fixed:
  assumes "fixed_fetcher E f" and "fixed_now E t"
  shows "fst (check_expiry E [host] w) = fst (check_expiry E [host] w')"
proof -
  note fx = get_cert_info_fixed [OF assms(1), of host w w']
  have clock: "t' = t" if "now E v = (t', v')" for v t' v'
  proof -
    from assms(2) have "fst (now E v) = t"
      by (simp add: fixed_now_def)
    with that show ?thesis by simp
  qed
  show ?thesis
  proof (cases rule: check_expiry_single_cases [of E host w])
    case (failed e w1)
    show ?thesis
    proof (cases rule: check_expiry_single_cases [of E host w'])
      case (failed e' w1')
      from fx \<open>get_cert_info E host w = (Inl e, w1)\<close> failed(1) have "e = e'" by simp
      with \<open>check_expiry E [host] w = _\<close> failed(2) show ?thesis by simp
    next
      case (fetched expiry' issuer_name' w1' t' w2')
      from fx \<open>get_cert_info E host w = (Inl e, w1)\<close> fetched(1) show ?thesis by simp
    qed
  next
    case (fetched expiry issuer_name w1 t1 w2)
    show ?thesis
    proof (cases rule: check_expiry_single_cases [of E host w'])
      case (failed e' w1')
      from fx \<open>get_cert_info E host w = (Inr (expiry, issuer_name), w1)\<close> failed(1)
      show ?thesis by simp
    next
      case inner: (fetched expiry' issuer_name' w1' t' w2')
      from fx fetched(1) inner(1) have "expiry = expiry'" "issuer_name = issuer_name'"
        by simp_all
      moreover have "t1 = t" "t' = t"
        using clock [OF fetched(2)] clock [OF inner(2)] by simp_all
      ultimately show ?thesis
        using fetched(3) inner(3) by simp
    qed
  qed
qed

lemma check_expiry_fixed:
  assumes "fixed_fetcher E f" and "fixed_now E t"
  shows "fst (check_expiry E hosts w) = fst (check_expiry E hosts w')"
proof (induction hosts arbitrary: w w')
  case Nil
  show ?case by (simp add: check_expiry_Nil)
next
  case (Cons h hs)
  have "fst (check_expiry E (h # hs) w) =
          fst (check_expiry E [h] w) @ fst (check_expiry E hs (snd (check_expiry E [h] w)))"
    by (simp add: check_expiry_Cons [of E h hs w])
  also have "\<dots> =
          fst (check_expiry E [h] w') @ fst (check_expiry E hs (snd (check_expiry E [h] w')))"
    using check_expiry_single_fixed [OF assms, of h w w']
      Cons.IH [of "snd (check_expiry E [h] w)" "snd (check_expiry E [h] w')"]
    by simp
  also have "\<dots> = fst (check_expiry E (h # hs) w')"
    by (simp add: check_expiry_Cons [of E h hs w'])
  finally show ?case .
qed

lemma check_expiry_twice_rows:
  assumes "fixed_fetcher E f"
  shows "list_all2 agree_up_to_clock
           (fst (check_expiry E hosts w)) (fst (check_expiry E hosts w'))"
proof (induction hosts arbitrary: w w')
  case Nil
  show ?case by (simp add: check_expiry_Nil)
next
  case (Cons h hs)
  have "list_all2 agree_up_to_clock
     (fst (check_expiry E [h] w) @ fst (check_expiry E hs (snd (check_expiry E [h] w))))
     (fst (check_expiry E [h] w') @ fst (check_expiry E hs (snd (check_expiry E [h] w'))))"
    by (rule list_all2_appendI [OF check_expiry_single_twice [OF assms] Cons.IH])
  then show ?case
    by (simp add: check_expiry_Cons [of E h hs w] check_expiry_Cons [of E h hs w'])
qed

lemma mock_fixed_fetcher: "fixed_fetcher (mock_env fetch parse clock) fetch"
  by (simp add: fixed_fetcher_def mock_tls_connect)

lemma mock_fixed_now: "fixed_now (mock_env fetch parse (\<lambda>n. t)) t"
  by (simp add: fixed_now_def mock_now)

lemma mock_unreachable_row:
  "check_expiry (mock_env sample_fetch sample_parse clock) [''unreachable.test''] w =
     ([(''unreachable.test'', None, ''Error: [Errno 111] Connection refused'',
        ''Unknown Issuer'')], Suc w)"
proof -
  have "get_cert_info (mock_env sample_fetch sample_parse clock) ''unreachable.test'' w =
          (Inl (Exn ''ConnectionRefusedError'' ''[Errno 111] Connection refused''), Suc w)"
    by (rule get_cert_info_connect_failed)
       (simp add: mock_tls_connect sample_fetch_unreachable)
  from check_expiry_single_err [OF this] show ?thesis by simp
qed

lemma mock_valid_row:
  "check_expiry (mock_env sample_fetch sample_parse clock) [''valid-example.test''] w =
     ([(''valid-example.test'', Some ((sample_expiry - clock (Suc w)) div day_us),
        (if (sample_expiry - clock (Suc w)) div day_us < 0 then ''Expired''
         else if (sample_expiry - clock (Suc w)) div day_us < 30 then ''Expiring Soon''
         else ''Valid''), ''ExampleCA'')], Suc (Suc w))"
  using check_expiry_single_ok [OF sample_get_cert_info mock_now]
  by (simp add: days_datetime_sub)

text \<open>
  Claim C7, as the specification states it, says that with a fixed fetcher two calls
  give the same status for every host, whatever the clock does. The status is computed
  from the day count: when the clock advances across a day boundary between the calls
  the status changes with it. Here the fetcher is fixed and the clock advances by two
  microseconds between the two samples; the first call reports 30 days and \<open>Valid\<close>, the
  second 29 days and \<open>Expiring Soon\<close>.
\<close>

theorem status_changes_with_clock_counterexample:
  "fixed_fetcher
     (mock_env sample_fetch sample_parse (\<lambda>n. sample_expiry - 30 * day_us + int n - 1))
     sample_fetch \<and>
   check_expiry
     (mock_env sample_fetch sample_parse (\<lambda>n. sample_expiry - 30 * day_us + int n - 1))
     [''valid-example.test''] 0 =
     ([(''valid-example.test'', Some 30, ''Valid'', ''ExampleCA'')], 2) \<and>
   check_expiry
     (mock_env sample_fetch sample_parse (\<lambda>n. sample_expiry - 30 * day_us + int n - 1))
     [''valid-example.test''] 2 =
     ([(''valid-example.test'', Some 29, ''Expiring Soon'', ''ExampleCA'')], 4)"
proof -
  let ?clock = "\<lambda>n. sample_expiry - 30 * day_us + int n - 1"
  have a: "check_expiry (mock_env sample_fetch sample_parse ?clock) [''valid-example.test''] 0 =
     ([(''valid-example.test'', Some 30, ''Valid'', ''ExampleCA'')], 2)"
    by (simp add: mock_valid_row day_us_def)
  have b: "check_expiry (mock_env sample_fetch sample_parse ?clock) [''valid-example.test''] 2 =
     ([(''valid-example.test'', Some 29, ''Expiring Soon'', ''ExampleCA'')], 4)"
    by (simp add: mock_valid_row day_us_def)
  from a b mock_fixed_fetcher [of sample_fetch sample_parse ?clock] show ?thesis
    by simp
qed

text \<open>
  Claim C7, amended. Given a fixed fetcher, two calls of \<open>check_expiry\<close> with the same
  input, started in any two worlds, give rows that agree host by host on the host, on the
  issuer and on whether the host failed, and that have the same status wherever they
  have the same day count (so the rows of failed hosts are identical); day count and
  status may differ when the sampled instant differs between the calls. With the current
  instant fixed as well, the two result sequences are identical.
\<close>

theorem check_expiry_twice:
  assumes "fixed_fetcher E f"
  shows "list_all2 agree_up_to_clock
           (fst (check_expiry E hosts w)) (fst (check_expiry E hosts w')) \<and>
         map res_issuer (fst (check_expiry E hosts w)) =
           map res_issuer (fst (check_expiry E hosts w')) \<and>
         (fixed_now E t \<longrightarrow> fst (check_expiry E hosts w) = fst (check_expiry E hosts w'))"
proof (intro conjI impI)
  show rel: "list_all2 agree_up_to_clock
           (fst (check_expiry E hosts w)) (fst (check_expiry E hosts w'))"
    by (rule check_expiry_twice_rows [OF assms])
  have "list_all2 (\<lambda>a b. res_issuer a = res_issuer b)
           (fst (check_expiry E hosts w)) (fst (check_expiry E hosts w'))"
    by (rule list_all2_mono [OF rel]) (simp add: agree_up_to_clock_def)
  then show "map res_issuer (fst (check_expiry E hosts w)) =
           map res_issuer (fst (check_expiry E hosts w'))"
    by (simp add: list.rel_eq [symmetric] list.rel_map)
next
  assume "fixed_now E t"
  with assms show "fst (check_expiry E hosts w) = fst (check_expiry E hosts w')"
    by (rule check_expiry_fixed)
qed

theorem check_expiry_twice_witness:
  "fst (check_expiry (mock_env sample_fetch sample_parse (\<lambda>n. sample_expiry - 400 * day_us))
          [''valid-example.test'', ''unreachable.test''] 3) =
     [(''valid-example.test'', Some 400, ''Valid'', ''ExampleCA''),
      (''unreachable.test'', None, ''Error: [Errno 111] Connection refused'',
       ''Unknown Issuer'')]"
proof -
  let ?E = "mock_env sample_fetch sample_parse (\<lambda>n. sample_expiry - 400 * day_us)"
  let ?hosts = "[''valid-example.test'', ''unreachable.test'']"
  have ff: "fixed_fetcher ?E sample_fetch"
    by (rule mock_fixed_fetcher)
  have fn: "fixed_now ?E (sample_expiry - 400 * day_us)"
    by (rule mock_fixed_now)
  have first: "fst (check_expiry ?E ?hosts 0) =
     [(''valid-example.test'', Some 400, ''Valid'', ''ExampleCA''),
      (''unreachable.test'', None, ''Error: [Errno 111] Connection refused'',
       ''Unknown Issuer'')]"
    by (subst check_expiry_Cons)
       (simp add: mock_valid_row mock_unreachable_row day_us_def)
  from check_expiry_twice [OF ff, of ?hosts 3 0 "sample_expiry - 400 * day_us"] fn
  have "fst (check_expiry ?E ?hosts 3) = fst (check_expiry ?E ?hosts 0)"
    by simp
  with first show ?thesis by simp
qed

subsection \<open>Day count and status\<close>

text \<open>
  Claim C9. In every row that \<open>check_expiry\<close> produces, the day count is absent exactly
  when the status is an error status (the string \<open>Error: \<close> followed by the message);
  whenever the status is \<open>Valid\<close>, \<open>Expiring Soon\<close> or \<open>Expired\<close> the day count is present;
  and every status is one of these three strings or an error status.
\<close>

theorem check_expiry_days_iff_not_error:
  "\<forall>r \<in> set (fst (check_expiry E hosts w)).
     (res_days r = None) = is_error_status (res_status r) \<and>
     (res_status r \<in> {''Valid'', ''Expiring Soon'', ''Expired''} \<longrightarrow> res_days r \<noteq> None) \<and>
     (res_status r \<in> {''Valid'', ''Expiring Soon'', ''Expired''} \<or>
      is_error_status (res_status r))"
proof
  fix r
  assume "r \<in> set (fst (check_expiry E hosts w))"
  from check_expiry_rows [OF this] obtain h w0
    where row: "fst (check_expiry E [h] w0) = [r]" by blast
  show "(res_days r = None) = is_error_status (res_status r) \<and>
     (res_status r \<in> {''Valid'', ''Expiring Soon'', ''Expired''} \<longrightarrow> res_days r \<noteq> None) \<and>
     (res_status r \<in> {''Valid'', ''Expiring Soon'', ''Expired''} \<or>
      is_error_status (res_status r))"
  proof (cases rule: check_expiry_single_cases [of E h w0])
    case (failed e w1)
    with row have "r = (h, None, ''Error: '' @ exn_str e, ''Unknown Issuer'')"
      by simp
    then show ?thesis
      by (simp add: res_days_def res_status_def is_error_status_def)
  next
    case (fetched expiry issuer_name w1 t w2)
    let ?d = "days (datetime_sub expiry t)"
    from fetched(3) row
    have "r = (h, Some ?d,
        (if ?d < 0 then ''Expired'' else if ?d < 30 then ''Expiring Soon'' else ''Valid''),
        issuer_name)"
      by simp
    then show ?thesis
      by (simp add: res_days_def res_status_def is_error_status_def)
  qed
qed

theorem check_expiry_days_iff_not_error_witness:
  "check_expiry (mock_env sample_fetch sample_parse (\<lambda>n. sample_expiry - 10 * day_us))
     [''unreachable.test'', ''valid-example.test''] 0 =
     ([(''unreachable.test'', None, ''Error: [Errno 111] Connection refused'',
        ''Unknown Issuer''),
       (''valid-example.test'', Some 10, ''Expiring Soon'', ''ExampleCA'')], 3) \<and>
   is_error_status ''Error: [Errno 111] Connection refused'' \<and>
   \<not> is_error_status ''Expiring Soon''"
proof -
  let ?E = "mock_env sample_fetch sample_parse (\<lambda>n. sample_expiry - 10 * day_us)"
  let ?hosts = "[''unreachable.test'', ''valid-example.test'']"
  let ?r1 = "(''unreachable.test'', None, ''Error: [Errno 111] Connection refused'',
        ''Unknown Issuer'')"
  let ?r2 = "(''valid-example.test'', Some (10::int), ''Expiring Soon'', ''ExampleCA'')"
  have run: "check_expiry ?E ?hosts 0 = ([?r1, ?r2], 3)"
    by (subst check_expiry_Cons)
       (simp add: mock_valid_row mock_unreachable_row day_us_def)
  then have m1: "?r1 \<in> set (fst (check_expiry ?E ?hosts 0))"
    and m2: "?r2 \<in> set (fst (check_expiry ?E ?hosts 0))"
    by simp_all
  from bspec [OF check_expiry_days_iff_not_error m1]
  have e1: "is_error_status ''Error: [Errno 111] Connection refused''"
    by (simp add: res_days_def res_status_def)
  from bspec [OF check_expiry_days_iff_not_error m2]
  have e2: "\<not> is_error_status ''Expiring Soon''"
    by (simp add: res_days_def res_status_def)
  from run e1 e2 show ?thesis by simp
qed

subsection \<open>Batches and single checks\<close>

lemma main_loop_acc:
  "main_loop E hosts acc w =
     (acc @ fst (check_expiry E hosts w), snd (check_expiry E hosts w))"
proof (induction hosts arbitrary: acc w)
  case Nil
  show ?case by (simp add: check_expiry_Nil)
next
  case (Cons h hs)
  show ?case
    by (simp add: Cons.IH check_expiry_Cons [of E h hs w] split: prod.splits)
qed

text \<open>
  Claim C10. Given a fixed fetcher and a fixed current instant, the rows of
  \<open>check_expiry\<close> on a concatenation are the rows on the first part followed by the rows
  on the second part, the rows on the empty list are empty, and checking the hosts one at
  a time and collecting the rows, as the loop of \<open>main\<close> does, gives the rows of the
  whole batch.
\<close>

theorem check_expiry_append_hom:
  assumes "fixed_fetcher E f" and "fixed_now E t"
  shows "fst (check_expiry E (xs @ ys) w) =
           fst (check_expiry E xs w) @ fst (check_expiry E ys w) \<and>
         fst (check_expiry E [] w) = [] \<and>
         fst (main_loop E hosts [] w) = fst (check_expiry E hosts w)"
proof (intro conjI)
  have "fst (check_expiry E (xs @ ys) w) =
          fst (check_expiry E xs w) @ fst (check_expiry E ys (snd (check_expiry E xs w)))"
    by (simp add: check_expiry_append [of E xs ys w])
  also have "fst (check_expiry E ys (snd (check_expiry E xs w))) = fst (check_expiry E ys w)"
    by (rule check_expiry_fixed [OF assms])
  finally show "fst (check_expiry E (xs @ ys) w) =
           fst (check_expiry E xs w) @ fst (check_expiry E ys w)" .
  show "fst (check_expiry E [] w) = []"
    by (simp add: check_expiry_Nil)
  show "fst (main_loop E hosts [] w) = fst (check_expiry E hosts w)"
    by (simp add: main_loop_acc)
qed

theorem check_expiry_append_hom_witness:
  "fst (check_expiry (mock_env sample_fetch sample_parse (\<lambda>n. sample_expiry + 5 * day_us))
          ([''unreachable.test''] @ [''valid-example.test'']) 0) =
     [(''unreachable.test'', None, ''Error: [Errno 111] Connection refused'',
       ''Unknown Issuer''),
      (''valid-example.test'', Some (- 5), ''Expired'', ''ExampleCA'')] \<and>
   fst (main_loop (mock_env sample_fetch sample_parse (\<lambda>n. sample_expiry + 5 * day_us))
          [''unreachable.test'', ''valid-example.test''] [] 0) =
     [(''unreachable.test'', None, ''Error: [Errno 111] Connection refused'',
       ''Unknown Issuer''),
      (''valid-example.test'', Some (- 5), ''Expired'', ''ExampleCA'')]"
proof -
  let ?E = "mock_env sample_fetch sample_parse (\<lambda>n. sample_expiry + 5 * day_us)"
  have ff: "fixed_fetcher ?E sample_fetch"
    by (rule mock_fixed_fetcher)
  have fn: "fixed_now ?E (sample_expiry + 5 * day_us)"
    by (rule mock_fixed_now)
  note hom = check_expiry_append_hom [OF ff fn,
      of "[''unreachable.test'']" "[''valid-example.test'']" 0
         "[''unreachable.test'', ''valid-example.test'']"]
  have r1: "fst (check_expiry ?E [''unreachable.test''] 0) =
      [(''unreachable.test'', None, ''Error: [Errno 111] Connection refused'',
        ''Unknown Issuer'')]"
    by (simp add: mock_unreachable_row)
  have r2: "fst (check_expiry ?E [''valid-example.test''] 0) =
      [(''valid-example.test'', Some (- 5), ''Expired'', ''ExampleCA'')]"
    by (simp add: mock_valid_row day_us_def)
  from hom have a: "fst (check_expiry ?E ([''unreachable.test''] @ [''valid-example.test'']) 0) =
      fst (check_expiry ?E [''unreachable.test''] 0) @
      fst (check_expiry ?E [''valid-example.test''] 0)"
    by (rule conjunct1)
  from hom have b: "fst (main_loop ?E [''unreachable.test'', ''valid-example.test''] [] 0) =
      fst (check_expiry ?E [''unreachable.test'', ''valid-example.test''] 0)"
    by simp
  from a r1 r2 b show ?thesis by simp
qed

end
